theory Spec2Isabelle
  imports Complex_Main
begin

section \<open>Seller scoring (services/ai/SellerScoringService.js)\<close>

text \<open>
  JavaScript numbers are modelled as reals (rounding of IEEE doubles and NaN are not
  represented).  A value that is not a number (\<open>typeof v !== 'number'\<close>) is kept apart,
  since the aggregation tests exactly that.
\<close>

datatype jsval = JNum real | JStr string | JUndefined

text \<open>\<open>typeof v === 'number'\<close>\<close>

fun is_number :: "jsval \<Rightarrow> bool" where
  "is_number (JNum v) = True"
| "is_number (JStr s) = False"
| "is_number JUndefined = False"

text \<open>
  The object an analyzer returns: \<open>{ score, reason, details }\<close>.  The \<open>details\<close> payload
  is never read by the aggregation and is left out.
\<close>

record score_obj =
  score :: jsval
  reason :: string

text \<open>The keys of \<open>this.scoringWeights\<close>, in the order the constructor inserts them.\<close>

datatype factor =
  socialVerification | legitimacyScore | behaviorScore
  | fraudScore | transactionHistory | productQuality

definition scoringWeights :: "(factor \<times> real) list" where
  "scoringWeights =
    [(socialVerification, 25 / 100),
     (legitimacyScore, 20 / 100),
     (behaviorScore, 20 / 100),
     (fraudScore, 15 / 100),
     (transactionHistory, 10 / 100),
     (productQuality, 10 / 100)]"

text \<open>
  The argument \<open>scores\<close> of \<open>calculateWeightedScore\<close> is an object keyed by factor; a key
  that is absent (or whose value is \<open>null\<close>/\<open>undefined\<close>) is \<open>None\<close>.
\<close>

type_synonym scores = "factor \<Rightarrow> score_obj option"

text \<open>
  The body of the \<open>forEach\<close> callback: the accumulator is the pair
  \<open>(totalScore, totalWeight)\<close>.
\<close>

definition weighted_step :: "scores \<Rightarrow> real \<times> real \<Rightarrow> factor \<times> real \<Rightarrow> real \<times> real" where
  "weighted_step scores acc fw =
    (case scores (fst fw) of
       None \<Rightarrow> acc
     | Some p \<Rightarrow>
        (case score p of
           JNum v \<Rightarrow> (fst acc + v * snd fw, snd acc + snd fw)
         | JStr s \<Rightarrow> acc
         | JUndefined \<Rightarrow> acc))"

definition calculateWeightedScore :: "scores \<Rightarrow> real" where
  "calculateWeightedScore scores =
    (let acc = foldl (weighted_step scores) (0, 0) scoringWeights;
         totalScore = fst acc;
         totalWeight = snd acc
     in if totalWeight > 0 then totalScore / totalWeight else 5 / 10)"

text \<open>
  \<open>this.scoreTiers\<close>: the table of bands in insertion order.  Colour and badge are
  presentation only and are left out.
\<close>

datatype tier = excellent | veryGood | good | fair | poor | veryPoor

record tier_config =
  tier_min :: real
  tier_max :: real
  tier_label :: string

definition veryPoor_config :: tier_config where
  "veryPoor_config = \<lparr>tier_min = 0, tier_max = 39 / 100, tier_label = ''Very Poor''\<rparr>"

definition scoreTiers :: "(tier \<times> tier_config) list" where
  "scoreTiers =
    [(excellent, \<lparr>tier_min = 9 / 10, tier_max = 1, tier_label = ''Excellent''\<rparr>),
     (veryGood, \<lparr>tier_min = 8 / 10, tier_max = 89 / 100, tier_label = ''Very Good''\<rparr>),
     (good, \<lparr>tier_min = 7 / 10, tier_max = 79 / 100, tier_label = ''Good''\<rparr>),
     (fair, \<lparr>tier_min = 6 / 10, tier_max = 69 / 100, tier_label = ''Fair''\<rparr>),
     (poor, \<lparr>tier_min = 4 / 10, tier_max = 59 / 100, tier_label = ''Poor''\<rparr>),
     (veryPoor, veryPoor_config)]"

text \<open>
  The result of \<open>getScoreTier\<close>.  Inside the loop the object carries the key \<open>tier\<close>;
  the fall-through \<open>return this.scoreTiers.veryPoor\<close> hands back the bare table entry,
  which has no \<open>tier\<close> key (\<open>res_tier = None\<close>).
\<close>

record tier_result =
  res_tier :: "tier option"
  res_label :: string
  res_min :: real
  res_max :: real

fun tier_loop :: "real \<Rightarrow> (tier \<times> tier_config) list \<Rightarrow> tier_result option" where
  "tier_loop s [] = None"
| "tier_loop s ((t, c) # rest) =
    (if s \<ge> tier_min c \<and> s \<le> tier_max c
     then Some \<lparr>res_tier = Some t, res_label = tier_label c,
                 res_min = tier_min c, res_max = tier_max c\<rparr>
     else tier_loop s rest)"

definition getScoreTier :: "real \<Rightarrow> tier_result" where
  "getScoreTier s =
    (case tier_loop s scoreTiers of
       Some r \<Rightarrow> r
     | None \<Rightarrow>
        \<lparr>res_tier = None, res_label = tier_label veryPoor_config,
         res_min = tier_min veryPoor_config, res_max = tier_max veryPoor_config\<rparr>)"


subsection \<open>The behaviour aggregate (services/ai/BehaviorMonitoringService.js)\<close>

text \<open>
  \<open>calculateBehaviorScore(analyses)\<close> walks the entries of its argument and looks the
  weight up by category.  An analysis object is \<open>{ score, risk, patterns, details }\<close>.
\<close>

datatype category = listing | communication | transaction | account

record analysis =
  an_score :: jsval
  an_risk :: string
  an_patterns :: "string list"

fun behaviorWeights :: "category \<Rightarrow> real" where
  "behaviorWeights listing = 3 / 10"
| "behaviorWeights communication = 25 / 100"
| "behaviorWeights transaction = 25 / 100"
| "behaviorWeights account = 2 / 10"

definition behavior_step ::
  "real \<times> real \<Rightarrow> category \<times> analysis option \<Rightarrow> real \<times> real" where
  "behavior_step acc ca =
    (case snd ca of
       None \<Rightarrow> acc
     | Some a \<Rightarrow>
        (case an_score a of
           JNum v \<Rightarrow> (fst acc + v * behaviorWeights (fst ca), snd acc + behaviorWeights (fst ca))
         | JStr s \<Rightarrow> acc
         | JUndefined \<Rightarrow> acc))"

definition calculateBehaviorScore :: "(category \<times> analysis option) list \<Rightarrow> real" where
  "calculateBehaviorScore analyses =
    (let acc = foldl behavior_step (0, 0) analyses;
         totalScore = fst acc;
         totalWeight = snd acc
     in if totalWeight > 0 then totalScore / totalWeight else 5 / 10)"

subsection \<open>What the two aggregates count\<close>

text \<open>
  Both loops add an entry only when it is present and its score is a number; every
  other entry is skipped.  \<open>counted_value\<close> and \<open>counted_analysis\<close> give the number of
  an entry that is added, \<open>counted_entries\<close> and \<open>counted_analyses\<close> the (value, weight)
  pairs that are added, in the order of the loop.
\<close>

definition counted_value :: "scores \<Rightarrow> factor \<Rightarrow> real option" where
  "counted_value scores f =
    (case scores f of
       None \<Rightarrow> None
     | Some p \<Rightarrow> (case score p of JNum v \<Rightarrow> Some v | JStr s \<Rightarrow> None | JUndefined \<Rightarrow> None))"

definition counted_analysis :: "analysis option \<Rightarrow> real option" where
  "counted_analysis a =
    (case a of
       None \<Rightarrow> None
     | Some x \<Rightarrow> (case an_score x of JNum v \<Rightarrow> Some v | JStr s \<Rightarrow> None | JUndefined \<Rightarrow> None))"

definition counted_entries :: "scores \<Rightarrow> (real \<times> real) list" where
  "counted_entries scores =
    List.map_filter
      (\<lambda>fw. map_option (\<lambda>v. (v, snd fw)) (counted_value scores (fst fw)))
      scoringWeights"

definition counted_analyses :: "(category \<times> analysis option) list \<Rightarrow> (real \<times> real) list" where
  "counted_analyses analyses =
    List.map_filter
      (\<lambda>ca. map_option (\<lambda>v. (v, behaviorWeights (fst ca))) (counted_analysis (snd ca)))
      analyses"

text \<open>The weighted mean of (value, weight) pairs.\<close>

definition weighted_mean :: "(real \<times> real) list \<Rightarrow> real" where
  "weighted_mean vws = (\<Sum>vw\<leftarrow>vws. fst vw * snd vw) / (\<Sum>vw\<leftarrow>vws. snd vw)"

text \<open>
  The object each of the four behaviour sub-analyzers (\<open>analyzeListingBehavior\<close>,
  \<open>analyzeCommunicationBehavior\<close>, \<open>analyzeTransactionBehavior\<close>,
  \<open>analyzeAccountBehavior\<close>) returns from its \<open>catch\<close> block.
\<close>

definition analysis_failed :: analysis where
  "analysis_failed =
    \<lparr>an_score = JNum (5 / 10), an_risk = ''medium'', an_patterns = [''Analysis failed'']\<rparr>"

text \<open>Concrete score objects used as inputs below.\<close>

definition no_scores :: scores where
  "no_scores = (\<lambda>f. None)"

definition two_scores :: scores where
  "two_scores =
    (\<lambda>f. if f = socialVerification then Some \<lparr>score = JNum (8 / 10), reason = ''2 verified accounts''\<rparr>
         else if f = fraudScore then Some \<lparr>score = JNum (4 / 10), reason = ''Fraud risk detected''\<rparr>
         else if f = behaviorScore then Some \<lparr>score = JUndefined, reason = []\<rparr>
         else None)"

definition two_analyses :: "(category \<times> analysis option) list" where
  "two_analyses =
    [(listing, Some \<lparr>an_score = JNum 1, an_risk = ''low'', an_patterns = []\<rparr>),
     (communication, None),
     (transaction, Some \<lparr>an_score = JNum (5 / 10), an_risk = ''medium'', an_patterns = []\<rparr>),
     (account, Some \<lparr>an_score = JStr ''n/a'', an_risk = ''medium'', an_patterns = []\<rparr>)]"

section \<open>Escrow orchestration (services/EscrowTransactionService.js)\<close>

subsection \<open>The local store\<close>

text \<open>
  Rows of the tables the service touches, with the columns it reads or writes.  Users
  and products are keyed by their primary key (\<open>findByPk\<close>), so \<open>buyer.id\<close> and
  \<open>product.id\<close> are the keys themselves, and \<open>product.seller.id\<close> is the product's
  \<open>seller_id\<close>.  Orders and ledger entries are kept in insertion order.  Status columns
  hold the strings the service writes.
\<close>

record user_row =
  u_username :: string
  u_smartAccountAddress :: string

record product_row =
  p_seller_id :: int
  p_name :: string
  p_price :: real
  p_quantity :: int
  p_status :: string

record order_row =
  o_order_id :: string
  o_buyer_id :: int
  o_seller_id :: int
  o_product_id :: int
  o_amount :: real
  o_token_symbol :: string
  o_quantity :: int
  o_status :: string
  o_escrow_address :: "string option"
  o_metadata_uri :: "string option"

record transaction_row =
  t_transaction_id :: string
  t_sender_id :: int
  t_recipient_id :: int
  t_product_id :: int
  t_order_id :: string
  t_escrow_address :: "string option"
  t_token_address :: string
  t_token_symbol :: string
  t_amount :: real
  t_transaction_type :: string
  t_status :: string

record db =
  users :: "int \<Rightarrow> user_row option"
  products :: "int \<Rightarrow> product_row option"
  orders :: "order_row list"
  transactions :: "transaction_row list"

text \<open>
  The world is the committed store together with the sequence of transaction brackets
  and external calls the service has issued.  A database transaction works on its own
  copy of the store: its writes reach \<open>committed\<close> at \<open>commit\<close> and are dropped at
  \<open>rollback\<close>; a second transaction opened meanwhile sees only what is committed.
  One call of the service is followed from start to end; requests running at the same
  time are not interleaved with it.
\<close>

datatype event = TxBegin string | TxCommit string | TxRollback string | External string

record world =
  committed :: db
  events :: "event list"

definition emit :: "event \<Rightarrow> world \<Rightarrow> world" where
  "emit e w = w\<lparr>events := events w @ [e]\<rparr>"

subsection \<open>External collaborators\<close>

text \<open>
  The payment service catches every error of its own and answers with
  \<open>{ success: true, escrowAddress, transactionHash, ... }\<close> or
  \<open>{ success: false, error }\<close>.
\<close>

datatype exec_result =
  ExecSuccess string string
  | ExecFailure string

text \<open>
  What the surroundings answer during one call of the service: the generated
  identifiers, the content store (\<open>None\<close>: \<open>uploadJSON\<close> throws), the token table of the
  payment service, the settlement backend, and whether the writes of the follow-up and
  of the compensating transaction go through (their \<open>catch\<close> blocks run otherwise).
  The remaining reads and writes of the local store succeed, except where a unique
  column rejects a duplicate or an ENUM column rejects a value.
\<close>

record env =
  generateOrderId :: string
  generateTransactionId :: string
  uploadJSON :: "string option"
  supportedTokens :: "string \<Rightarrow> string option"
  settlement :: exec_result
  update_ok :: bool
  rollback_ok :: bool
  enforces_enum :: bool

subsection \<open>The status columns\<close>

text \<open>
  \<open>orders.status\<close> and \<open>transactions.status\<close> are declared as ENUM columns
  (models/order.js, the orders migration and the transactions migration).  A store that
  enforces the declaration (PostgreSQL) refuses
  any other value and the write throws; a store that keeps an ENUM as plain text (the
  SQLite dialect config.js also offers) takes it.  \<open>enforces_enum\<close> says which store
  the call runs against.  The service writes four values that are in neither list:
  \<open>release_pending\<close> and \<open>dispute_pending\<close> to an order, \<open>released\<close> and \<open>disputed\<close>
  to a ledger entry.
\<close>

definition order_status_enum :: "string list" where
  "order_status_enum =
    [''pending'', ''paid'', ''shipped'', ''delivered'', ''completed'', ''cancelled'',
     ''disputed'', ''refunded'']"

definition transaction_status_enum :: "string list" where
  "transaction_status_enum =
    [''pending'', ''submitted'', ''confirmed'', ''failed'', ''cancelled'']"

definition store_accepts :: "env \<Rightarrow> string list \<Rightarrow> string \<Rightarrow> bool" where
  "store_accepts env allowed v = (if enforces_enum env then v \<in> set allowed else True)"

text \<open>The message of the error the store raises for a value outside the ENUM.\<close>

definition enum_error :: "string \<Rightarrow> string \<Rightarrow> string" where
  "enum_error enum_name v =
    ''invalid input value for enum '' @ enum_name @ '': '' @ [CHR 0x22] @ v @ [CHR 0x22]"

subsection \<open>Compensation helpers\<close>

definition rollbackOrder :: "env \<Rightarrow> string \<Rightarrow> world \<Rightarrow> world" where
  "rollbackOrder env orderId w =
    (let w1 = emit (TxBegin ''rollbackOrder'') w;
         d = committed w1;
         d1 = d\<lparr>transactions := filter (\<lambda>t. t_order_id t \<noteq> orderId) (transactions d)\<rparr>;
         d2 = d1\<lparr>orders := filter (\<lambda>r. o_order_id r \<noteq> orderId) (orders d1)\<rparr>
     in if rollback_ok env
        then emit (TxCommit ''rollbackOrder'') (w1\<lparr>committed := d2\<rparr>)
        else emit (TxRollback ''rollbackOrder'') w1)"

definition rollbackOrderStatus :: "env \<Rightarrow> string \<Rightarrow> string \<Rightarrow> world \<Rightarrow> world" where
  "rollbackOrderStatus env orderId previousStatus w =
    (let w1 = emit (TxBegin ''rollbackOrderStatus'') w;
         d = committed w1;
         d1 = d\<lparr>orders :=
                map (\<lambda>r. if o_order_id r = orderId then r\<lparr>o_status := previousStatus\<rparr> else r)
                    (orders d)\<rparr>;
         d2 = d1\<lparr>transactions :=
                map (\<lambda>t. if t_order_id t = orderId \<and> t_status t = ''pending''
                          then t\<lparr>t_status := ''failed''\<rparr> else t)
                    (transactions d1)\<rparr>
     in if rollback_ok env
        then emit (TxCommit ''rollbackOrderStatus'') (w1\<lparr>committed := d2\<rparr>)
        else emit (TxRollback ''rollbackOrderStatus'') w1)"

subsection \<open>createProductEscrow\<close>

record purchase_result =
  pr_orderId :: string
  pr_transactionId :: string
  pr_escrowAddress :: string
  pr_amount :: real
  pr_tokenSymbol :: string
  pr_status :: string
  pr_warning :: "string option"

text \<open>
  The outer \<open>catch\<close>: every \<open>throw\<close> of \<open>createProductEscrow\<close> happens before
  \<open>transaction.commit()\<close>, so the handler rolls \<open>transaction\<close> back and rethrows.
\<close>

definition purchase_failed :: "string \<Rightarrow> world \<Rightarrow> (string + purchase_result) \<times> world" where
  "purchase_failed msg w =
    (Inl (''Purchase failed: '' @ msg), emit (TxRollback ''transaction'') w)"

text \<open>
  Steps 6 to 9 and the follow-up: the ledger entry is inserted and the stock is
  decremented inside \<open>transaction\<close> (working copy \<open>tx1\<close>, which already holds the new
  order), the payment service is called, and only then does the code reach
  \<open>transaction.commit()\<close>.
\<close>

definition purchase_settle ::
  "env \<Rightarrow> int \<Rightarrow> int \<Rightarrow> int \<Rightarrow> string \<Rightarrow> product_row \<Rightarrow> string \<Rightarrow> db \<Rightarrow> world
    \<Rightarrow> (string + purchase_result) \<times> world" where
  "purchase_settle env buyerId productId quantity tokenSymbol product tokenAddress tx1 w2 =
    (let totalAmount = p_price product * real_of_int quantity;
         orderId = generateOrderId env;
         dbTransaction =
           \<lparr>t_transaction_id = generateTransactionId env,
            t_sender_id = buyerId,
            t_recipient_id = p_seller_id product,
            t_product_id = productId, t_order_id = orderId,
            t_escrow_address = None,
            t_token_address = tokenAddress,
            t_token_symbol = tokenSymbol, t_amount = totalAmount,
            t_transaction_type = ''escrow_create'',
            t_status = ''pending''\<rparr>;
         tx2 = tx1\<lparr>transactions := transactions tx1 @ [dbTransaction]\<rparr>;
         tx3 = tx2\<lparr>products := (products tx2)
                 (productId \<mapsto> product\<lparr>p_quantity := p_quantity product - quantity\<rparr>)\<rparr>;
         w3 = emit (External ''paymentService.createEscrowPurchase'') w2
     in case settlement env of
          ExecFailure err \<Rightarrow>
            purchase_failed (''Escrow creation failed: '' @ err) (rollbackOrder env orderId w3)
        | ExecSuccess escrowAddress transactionHash \<Rightarrow>
           (let w4 = emit (TxCommit ''transaction'') (w3\<lparr>committed := tx3\<rparr>);
                w5 = emit (TxBegin ''updateTransaction'') w4;
                d = committed w5;
                d1 = d\<lparr>transactions :=
                       map (\<lambda>t. if t_transaction_id t = generateTransactionId env
                                 then t\<lparr>t_status := ''submitted'',
                                        t_escrow_address := Some escrowAddress\<rparr>
                                 else t)
                           (transactions d)\<rparr>;
                d2 = d1\<lparr>orders :=
                       map (\<lambda>r. if o_order_id r = orderId
                                 then r\<lparr>o_escrow_address := Some escrowAddress,
                                        o_status := ''paid''\<rparr>
                                 else r)
                           (orders d1)\<rparr>
            in if update_ok env
               then
                (Inr \<lparr>pr_orderId = orderId,
                      pr_transactionId = generateTransactionId env,
                      pr_escrowAddress = escrowAddress,
                      pr_amount = totalAmount,
                      pr_tokenSymbol = tokenSymbol,
                      pr_status = ''paid'', pr_warning = None\<rparr>,
                 emit (TxCommit ''updateTransaction'') (w5\<lparr>committed := d2\<rparr>))
               else
                (Inr \<lparr>pr_orderId = orderId,
                      pr_transactionId = generateTransactionId env,
                      pr_escrowAddress = escrowAddress,
                      pr_amount = totalAmount,
                      pr_tokenSymbol = tokenSymbol,
                      pr_status = ''paid_but_update_failed'',
                      pr_warning = Some ''Order created but status update failed''\<rparr>,
                 emit (TxRollback ''updateTransaction'') w5)))"

text \<open>
  Steps 1 to 5: validation, identifiers, the metadata upload and \<open>Order.create\<close>
  (\<open>order_id\<close> and \<open>transaction_id\<close> are unique columns; reading \<open>.address\<close> of an
  unknown token is a \<open>TypeError\<close>).
\<close>

definition createProductEscrow ::
  "env \<Rightarrow> int \<Rightarrow> int \<Rightarrow> int \<Rightarrow> string \<Rightarrow> world \<Rightarrow> (string + purchase_result) \<times> world" where
  "createProductEscrow env buyerId productId quantity tokenSymbol w =
    (let w1 = emit (TxBegin ''transaction'') w;
         tx = committed w1
     in case users tx buyerId of
          None \<Rightarrow> purchase_failed ''Buyer not found'' w1
        | Some buyer \<Rightarrow>
         (case products tx productId of
            None \<Rightarrow> purchase_failed ''Product not found'' w1
          | Some product \<Rightarrow>
             if p_status product \<noteq> ''active''
             then purchase_failed ''Product is not available for purchase'' w1
             else if p_quantity product < quantity
             then purchase_failed ''Insufficient product quantity'' w1
             else
              (let totalAmount = p_price product * real_of_int quantity;
                   orderId = generateOrderId env;
                   w2 = emit (External ''ipfsService.uploadJSON'') w1
               in case uploadJSON env of
                    None \<Rightarrow> purchase_failed ''Failed to upload to Pinata'' w2
                  | Some metadataUri \<Rightarrow>
                     if orderId \<in> set (map o_order_id (orders tx))
                     then purchase_failed ''Validation error'' w2
                     else
                      (let order =
                             \<lparr>o_order_id = orderId, o_buyer_id = buyerId,
                              o_seller_id = p_seller_id product, o_product_id = productId,
                              o_amount = totalAmount, o_token_symbol = tokenSymbol,
                              o_quantity = quantity, o_status = ''pending'',
                              o_escrow_address = None, o_metadata_uri = Some metadataUri\<rparr>;
                           tx1 = tx\<lparr>orders := orders tx @ [order]\<rparr>
                       in case supportedTokens env tokenSymbol of
                            None \<Rightarrow>
                              purchase_failed
                                ''Cannot read properties of undefined (reading 'address')'' w2
                          | Some tokenAddress \<Rightarrow>
                             if generateTransactionId env
                                  \<in> set (map t_transaction_id (transactions tx1))
                             then purchase_failed ''Validation error'' w2
                             else purchase_settle env buyerId productId quantity tokenSymbol
                                    product tokenAddress tx1 w2))))"

subsection \<open>releaseEscrow\<close>

record release_result =
  rr_transactionId :: string
  rr_orderId :: string
  rr_action :: string
  rr_amount :: real

text \<open>
  The outer \<open>catch\<close> of \<open>releaseEscrow\<close>: it rolls \<open>dbTransaction\<close> back only while that
  transaction is not finished, then rethrows.
\<close>

definition release_failed ::
  "bool \<Rightarrow> string \<Rightarrow> world \<Rightarrow> (string + release_result) \<times> world" where
  "release_failed finished msg w =
    (Inl (''Release failed: '' @ msg),
     if finished then w else emit (TxRollback ''dbTransaction'') w)"

text \<open>\<open>!order.escrow_address\<close>: \<open>null\<close> and the empty string are both falsy.\<close>

definition no_escrow :: "string option \<Rightarrow> bool" where
  "no_escrow a = (case a of None \<Rightarrow> True | Some s \<Rightarrow> s = [])"

text \<open>
  After the guards: \<open>Transaction.create\<close> and \<open>order.update\<close> write the pending
  ledger entry and the \<open>release_pending\<close> status (\<open>release_writes\<close>).  When the store
  refuses that status, \<open>order.update\<close> throws inside the \<open>try\<close>, before
  \<open>dbTransaction.commit()\<close>, and the outer \<open>catch\<close> rolls \<open>dbTransaction\<close> back.
  Otherwise the writes are committed, then the payment service is called; its failure
  is compensated by \<open>rollbackOrderStatus(orderId, 'paid')\<close>.  In the follow-up, a
  refused \<open>released\<close> lands in the inner \<open>catch\<close> like any other failed update.
\<close>

definition release_entry ::
  "env \<Rightarrow> int \<Rightarrow> string \<Rightarrow> order_row \<Rightarrow> string \<Rightarrow> transaction_row" where
  "release_entry env buyerId orderId order tokenAddress =
    \<lparr>t_transaction_id = generateTransactionId env,
     t_sender_id = buyerId, t_recipient_id = o_seller_id order,
     t_product_id = o_product_id order, t_order_id = orderId,
     t_escrow_address = o_escrow_address order,
     t_token_address = tokenAddress,
     t_token_symbol = o_token_symbol order, t_amount = o_amount order,
     t_transaction_type = ''escrow_release'', t_status = ''pending''\<rparr>"

definition release_writes ::
  "env \<Rightarrow> int \<Rightarrow> string \<Rightarrow> order_row \<Rightarrow> string \<Rightarrow> db \<Rightarrow> string + db" where
  "release_writes env buyerId orderId order tokenAddress tx =
    (let transactionRecord = release_entry env buyerId orderId order tokenAddress;
         tx1 = tx\<lparr>transactions := transactions tx @ [transactionRecord]\<rparr>
     in if store_accepts env order_status_enum ''release_pending''
        then Inr (tx1\<lparr>orders :=
                    map (\<lambda>r. if o_order_id r = orderId
                              then r\<lparr>o_status := ''release_pending''\<rparr> else r)
                        (orders tx1)\<rparr>)
        else Inl (enum_error ''enum_orders_status'' ''release_pending''))"

definition release_settle ::
  "env \<Rightarrow> int \<Rightarrow> string \<Rightarrow> order_row \<Rightarrow> string \<Rightarrow> world
    \<Rightarrow> (string + release_result) \<times> world" where
  "release_settle env buyerId orderId order tokenAddress w1 =
    (case release_writes env buyerId orderId order tokenAddress (committed w1) of
       Inl msg \<Rightarrow> release_failed False msg w1
     | Inr tx2 \<Rightarrow>
        (let w2 = emit (TxCommit ''dbTransaction'') (w1\<lparr>committed := tx2\<rparr>);
             w3 = emit (External ''paymentService.releaseEscrow'') w2
         in case settlement env of
              ExecFailure err \<Rightarrow>
                release_failed True (''Escrow release failed: '' @ err)
                  (rollbackOrderStatus env orderId ''paid'' w3)
            | ExecSuccess escrowAddress transactionHash \<Rightarrow>
               (let w4 = emit (TxBegin ''updateTransaction'') w3;
                    d = committed w4;
                    d1 = d\<lparr>transactions :=
                           map (\<lambda>t. if t_transaction_id t = generateTransactionId env
                                     then t\<lparr>t_status := ''released''\<rparr> else t)
                               (transactions d)\<rparr>;
                    d2 = d1\<lparr>orders :=
                           map (\<lambda>r. if o_order_id r = orderId
                                     then r\<lparr>o_status := ''completed''\<rparr> else r)
                               (orders d1)\<rparr>
                in if update_ok env \<and> store_accepts env transaction_status_enum ''released''
                   then
                    (Inr \<lparr>rr_transactionId = generateTransactionId env,
                          rr_orderId = orderId, rr_action = ''released'',
                          rr_amount = o_amount order\<rparr>,
                     emit (TxCommit ''updateTransaction'') (w4\<lparr>committed := d2\<rparr>))
                   else
                    release_failed True ''Release completed but status update failed''
                      (emit (TxRollback ''updateTransaction'') w4))))"

definition releaseEscrow ::
  "env \<Rightarrow> int \<Rightarrow> string \<Rightarrow> world \<Rightarrow> (string + release_result) \<times> world" where
  "releaseEscrow env buyerId orderId w =
    (let w1 = emit (TxBegin ''dbTransaction'') w;
         tx = committed w1
     in case find (\<lambda>r. o_order_id r = orderId) (orders tx) of
          None \<Rightarrow> release_failed False ''Order not found'' w1
        | Some order \<Rightarrow>
           if o_buyer_id order \<noteq> buyerId
           then release_failed False ''Only buyer can release funds'' w1
           else if no_escrow (o_escrow_address order)
           then release_failed False ''No escrow associated with this order'' w1
           else if o_status order \<noteq> ''paid''
           then release_failed False ''Order is not in paid status'' w1
           else
            (case supportedTokens env (o_token_symbol order) of
               None \<Rightarrow>
                 release_failed False
                   ''Cannot read properties of undefined (reading 'address')'' w1
             | Some tokenAddress \<Rightarrow>
                if generateTransactionId env \<in> set (map t_transaction_id (transactions tx))
                then release_failed False ''Validation error'' w1
                else release_settle env buyerId orderId order tokenAddress w1))"

subsection \<open>raiseDispute\<close>

record dispute_result =
  dr_transactionId :: string
  dr_orderId :: string
  dr_action :: string
  dr_reason :: string

definition dispute_failed ::
  "bool \<Rightarrow> string \<Rightarrow> world \<Rightarrow> (string + dispute_result) \<times> world" where
  "dispute_failed finished msg w =
    (Inl (''Dispute failed: '' @ msg),
     if finished then w else emit (TxRollback ''dbTransaction'') w)"

text \<open>
  \<open>Transaction.create\<close> and \<open>order.update\<close> of \<open>raiseDispute\<close>; the dispute reason goes
  into the entry's metadata, which is not modelled.  A store that refuses
  \<open>dispute_pending\<close> makes \<open>order.update\<close> throw before \<open>dbTransaction.commit()\<close>.
\<close>

definition dispute_entry ::
  "env \<Rightarrow> int \<Rightarrow> string \<Rightarrow> order_row \<Rightarrow> string \<Rightarrow> transaction_row" where
  "dispute_entry env userId orderId order tokenAddress =
    \<lparr>t_transaction_id = generateTransactionId env,
     t_sender_id = userId,
     t_recipient_id =
       (if userId = o_buyer_id order then o_seller_id order else o_buyer_id order),
     t_product_id = o_product_id order, t_order_id = orderId,
     t_escrow_address = o_escrow_address order,
     t_token_address = tokenAddress,
     t_token_symbol = o_token_symbol order, t_amount = o_amount order,
     t_transaction_type = ''escrow_dispute'', t_status = ''pending''\<rparr>"

definition dispute_writes ::
  "env \<Rightarrow> int \<Rightarrow> string \<Rightarrow> order_row \<Rightarrow> string \<Rightarrow> db \<Rightarrow> string + db" where
  "dispute_writes env userId orderId order tokenAddress tx =
    (let transactionRecord = dispute_entry env userId orderId order tokenAddress;
         tx1 = tx\<lparr>transactions := transactions tx @ [transactionRecord]\<rparr>
     in if store_accepts env order_status_enum ''dispute_pending''
        then Inr (tx1\<lparr>orders :=
                    map (\<lambda>r. if o_order_id r = orderId
                              then r\<lparr>o_status := ''dispute_pending''\<rparr> else r)
                        (orders tx1)\<rparr>)
        else Inl (enum_error ''enum_orders_status'' ''dispute_pending''))"

definition dispute_settle ::
  "env \<Rightarrow> int \<Rightarrow> string \<Rightarrow> string \<Rightarrow> order_row \<Rightarrow> string \<Rightarrow> world
    \<Rightarrow> (string + dispute_result) \<times> world" where
  "dispute_settle env userId orderId dispute_reason order tokenAddress w1 =
    (case dispute_writes env userId orderId order tokenAddress (committed w1) of
       Inl msg \<Rightarrow> dispute_failed False msg w1
     | Inr tx2 \<Rightarrow>
        (let w2 = emit (TxCommit ''dbTransaction'') (w1\<lparr>committed := tx2\<rparr>);
             w3 = emit (External ''paymentService.raiseDispute'') w2
         in case settlement env of
              ExecFailure err \<Rightarrow>
                dispute_failed True (''Dispute raise failed: '' @ err)
                  (rollbackOrderStatus env orderId ''paid'' w3)
            | ExecSuccess escrowAddress transactionHash \<Rightarrow>
               (let w4 = emit (TxBegin ''updateTransaction'') w3;
                    d = committed w4;
                    d1 = d\<lparr>transactions :=
                           map (\<lambda>t. if t_transaction_id t = generateTransactionId env
                                     then t\<lparr>t_status := ''disputed''\<rparr> else t)
                               (transactions d)\<rparr>;
                    d2 = d1\<lparr>orders :=
                           map (\<lambda>r. if o_order_id r = orderId
                                     then r\<lparr>o_status := ''disputed''\<rparr> else r)
                               (orders d1)\<rparr>
                in if update_ok env \<and> store_accepts env transaction_status_enum ''disputed''
                   then
                    (Inr \<lparr>dr_transactionId = generateTransactionId env,
                          dr_orderId = orderId, dr_action = ''dispute_raised'',
                          dr_reason = dispute_reason\<rparr>,
                     emit (TxCommit ''updateTransaction'') (w4\<lparr>committed := d2\<rparr>))
                   else
                    dispute_failed True ''Dispute raised but status update failed''
                      (emit (TxRollback ''updateTransaction'') w4))))"

text \<open>The only guard of \<open>raiseDispute\<close> is on the caller; the status is not looked at.\<close>

definition raiseDispute ::
  "env \<Rightarrow> int \<Rightarrow> string \<Rightarrow> string \<Rightarrow> world \<Rightarrow> (string + dispute_result) \<times> world" where
  "raiseDispute env userId orderId dispute_reason w =
    (let w1 = emit (TxBegin ''dbTransaction'') w;
         tx = committed w1
     in case find (\<lambda>r. o_order_id r = orderId) (orders tx) of
          None \<Rightarrow> dispute_failed False ''Order not found'' w1
        | Some order \<Rightarrow>
           if o_buyer_id order \<noteq> userId \<and> o_seller_id order \<noteq> userId
           then dispute_failed False ''Only buyer or seller can raise dispute'' w1
           else
            (case supportedTokens env (o_token_symbol order) of
               None \<Rightarrow>
                 dispute_failed False
                   ''Cannot read properties of undefined (reading 'address')'' w1
             | Some tokenAddress \<Rightarrow>
                if generateTransactionId env \<in> set (map t_transaction_id (transactions tx))
                then dispute_failed False ''Validation error'' w1
                else dispute_settle env userId orderId dispute_reason order tokenAddress w1))"

subsection \<open>Reading the store and the event sequence\<close>

definition order_status :: "db \<Rightarrow> string \<Rightarrow> string option" where
  "order_status d orderId = map_option o_status (find (\<lambda>r. o_order_id r = orderId) (orders d))"

definition orders_of :: "db \<Rightarrow> string \<Rightarrow> order_row list" where
  "orders_of d orderId = filter (\<lambda>r. o_order_id r = orderId) (orders d)"

definition transactions_of :: "db \<Rightarrow> string \<Rightarrow> transaction_row list" where
  "transactions_of d orderId = filter (\<lambda>t. t_order_id t = orderId) (transactions d)"

definition product_quantity :: "db \<Rightarrow> int \<Rightarrow> int option" where
  "product_quantity d productId = map_option p_quantity (products d productId)"

text \<open>
  \<open>open_at_external n es\<close>: walking the events with \<open>n\<close> transactions open, is some
  transaction open at the moment an external call is issued?
\<close>

fun open_at_external :: "nat \<Rightarrow> event list \<Rightarrow> bool" where
  "open_at_external n [] = False"
| "open_at_external n (TxBegin x # es) = open_at_external (Suc n) es"
| "open_at_external n (TxCommit x # es) = open_at_external (n - 1) es"
| "open_at_external n (TxRollback x # es) = open_at_external (n - 1) es"
| "open_at_external n (External x # es) = (n > 0 \<or> open_at_external n es)"

subsection \<open>Concrete stores and surroundings\<close>

text \<open>
  Buyer 1, seller 2, product 42 at price 100 with five pieces in stock; the purchase is
  for two pieces paid in USDC.
\<close>

definition db0 :: db where
  "db0 =
    \<lparr>users = (\<lambda>i. if i = 1 then Some \<lparr>u_username = ''buyer'', u_smartAccountAddress = ''0xB1''\<rparr>
                  else if i = 2 then Some \<lparr>u_username = ''seller'', u_smartAccountAddress = ''0xS2''\<rparr>
                  else None),
     products = (\<lambda>i. if i = 42
                     then Some \<lparr>p_seller_id = 2, p_name = ''widget'', p_price = 100,
                                p_quantity = 5, p_status = ''active''\<rparr>
                     else None),
     orders = [],
     transactions = []\<rparr>"

definition world0 :: world where
  "world0 = \<lparr>committed = db0, events = []\<rparr>"

definition usdc_only :: "string \<Rightarrow> string option" where
  "usdc_only s = (if s = ''USDC'' then Some ''0xUSDC'' else None)"

definition env_fail :: env where
  "env_fail =
    \<lparr>generateOrderId = ''ORD-A1'', generateTransactionId = ''TXN-B2'',
     uploadJSON = Some ''bafymeta'', supportedTokens = usdc_only,
     settlement = ExecFailure ''Insufficient USDC balance'',
     update_ok = True, rollback_ok = True, enforces_enum = True\<rparr>"

definition env_ok :: env where
  "env_ok =
    \<lparr>generateOrderId = ''ORD-A1'', generateTransactionId = ''TXN-B2'',
     uploadJSON = Some ''bafymeta'', supportedTokens = usdc_only,
     settlement = ExecSuccess ''0xE5'' ''0xH6'',
     update_ok = True, rollback_ok = True, enforces_enum = True\<rparr>"

definition order_with_status :: "string \<Rightarrow> order_row" where
  "order_with_status s =
    \<lparr>o_order_id = ''ORD-A1'', o_buyer_id = 1, o_seller_id = 2, o_product_id = 42,
     o_amount = 200, o_token_symbol = ''USDC'', o_quantity = 2, o_status = s,
     o_escrow_address = Some ''0xE5'', o_metadata_uri = Some ''bafymeta''\<rparr>"

definition submitted_entry :: transaction_row where
  "submitted_entry =
    \<lparr>t_transaction_id = ''TXN-B2'', t_sender_id = 1, t_recipient_id = 2, t_product_id = 42,
     t_order_id = ''ORD-A1'', t_escrow_address = Some ''0xE5'', t_token_address = ''0xUSDC'',
     t_token_symbol = ''USDC'', t_amount = 200, t_transaction_type = ''escrow_create'',
     t_status = ''submitted''\<rparr>"

definition world_with_order :: "string \<Rightarrow> world" where
  "world_with_order s =
    \<lparr>committed = db0\<lparr>orders := [order_with_status s], transactions := [submitted_entry]\<rparr>,
     events = []\<rparr>"

text \<open>
  Surroundings of a release or dispute: against a store that keeps the status as plain
  text (\<open>env_release_ok\<close>), and against a store that enforces the declared ENUM, with
  the payment service failing (\<open>env_enum_fail\<close>) or succeeding (\<open>env_enum_ok\<close>).
\<close>

definition env_release_ok :: env where
  "env_release_ok =
    \<lparr>generateOrderId = ''ORD-C3'', generateTransactionId = ''TXN-D4'',
     uploadJSON = Some ''bafymeta'', supportedTokens = usdc_only,
     settlement = ExecSuccess ''0xE5'' ''0xH7'',
     update_ok = True, rollback_ok = True, enforces_enum = False\<rparr>"

definition env_enum_fail :: env where
  "env_enum_fail =
    \<lparr>generateOrderId = ''ORD-C3'', generateTransactionId = ''TXN-D4'',
     uploadJSON = Some ''bafymeta'', supportedTokens = usdc_only,
     settlement = ExecFailure ''bundler timeout'',
     update_ok = True, rollback_ok = True, enforces_enum = True\<rparr>"

definition env_enum_ok :: env where
  "env_enum_ok =
    \<lparr>generateOrderId = ''ORD-C3'', generateTransactionId = ''TXN-D4'',
     uploadJSON = Some ''bafymeta'', supportedTokens = usdc_only,
     settlement = ExecSuccess ''0xE5'' ''0xH7'',
     update_ok = True, rollback_ok = True, enforces_enum = True\<rparr>"

section \<open>The analyzers and calculateSellerScore\<close>

text \<open>
  Every analyzer awaits a data fetch inside \<open>try\<close> and returns a fixed score object from
  its \<open>catch\<close>.  The outcome of an awaited call is a sum: \<open>Inl msg\<close> when the promise
  rejects, \<open>Inr data\<close> when it resolves.  DECIMAL columns are read as numbers (zero is
  falsy), nullable columns as options.
\<close>

text \<open>Decimal rendering of a count, for \<open>`${verifiedAccounts} verified accounts`\<close>.\<close>

definition digit_char :: "nat \<Rightarrow> char" where
  "digit_char d = ''0123456789'' ! d"

function string_of_nat :: "nat \<Rightarrow> string" where
  "string_of_nat n =
    (if n < 10 then [digit_char n] else string_of_nat (n div 10) @ [digit_char (n mod 10)])"
  by pat_completeness auto
termination
  by (relation "measure id") auto

declare string_of_nat.simps [simp del]

subsection \<open>Social verification\<close>

record linked_account =
  platform :: string
  verificationScore :: "real option"

record linked_accounts_result =
  la_success :: bool
  la_accounts :: "linked_account list"

definition platformWeights :: "string \<Rightarrow> real option" where
  "platformWeights p =
    (if p = ''facebook'' then Some (1 / 10)
     else if p = ''instagram'' then Some (15 / 100)
     else if p = ''whatsapp'' then Some (1 / 10)
     else if p = ''contact'' then Some (5 / 100)
     else None)"

text \<open>\<open>new Set(...)\<close> keeps the first occurrence of each platform, in order.\<close>

definition calculatePlatformBonus :: "linked_account list \<Rightarrow> real" where
  "calculatePlatformBonus accounts =
    (let linkedPlatforms = rev (remdups (rev (map platform accounts)));
         bonus = foldl (\<lambda>b p. case platformWeights p of Some w \<Rightarrow> b + w | None \<Rightarrow> b)
                       0 linkedPlatforms
     in min bonus (2 / 10))"

definition calculateSocialVerificationScore :: "string + linked_accounts_result \<Rightarrow> score_obj" where
  "calculateSocialVerificationScore fetched =
    (case fetched of
       Inl e \<Rightarrow> \<lparr>score = JNum (3 / 10), reason = ''Social verification analysis failed''\<rparr>
     | Inr linkedAccounts \<Rightarrow>
        if \<not> la_success linkedAccounts \<or> length (la_accounts linkedAccounts) = 0
        then \<lparr>score = JNum (2 / 10), reason = ''No social accounts linked''\<rparr>
        else
         (let accounts = la_accounts linkedAccounts;
              counted = List.map_filter
                          (\<lambda>a. case verificationScore a of
                                 Some v \<Rightarrow> if v > 5 / 10 then Some v else None
                               | None \<Rightarrow> None)
                          accounts;
              totalScore = foldl (+) 0 counted;
              verifiedAccounts = length counted;
              avgScore = (if verifiedAccounts > 0 then totalScore / real verifiedAccounts else 0);
              platformBonus = calculatePlatformBonus accounts;
              finalScore = min (avgScore + platformBonus) 1
          in \<lparr>score = JNum finalScore,
              reason = (if verifiedAccounts > 0
                        then string_of_nat verifiedAccounts @ '' verified accounts''
                        else ''No verified accounts'')\<rparr>))"

subsection \<open>Legitimacy and behaviour\<close>

record assessed_row =
  stored_score :: "real option"
  stored_risk :: "string option"

definition show_risk :: "string option \<Rightarrow> string" where
  "show_risk r = (case r of None \<Rightarrow> ''null'' | Some s \<Rightarrow> s)"

definition calculateLegitimacyScore :: "string + assessed_row option \<Rightarrow> score_obj" where
  "calculateLegitimacyScore fetched =
    (case fetched of
       Inl e \<Rightarrow> \<lparr>score = JNum (5 / 10), reason = ''Legitimacy analysis failed''\<rparr>
     | Inr None \<Rightarrow> \<lparr>score = JNum (5 / 10), reason = ''Legitimacy not assessed''\<rparr>
     | Inr (Some user) \<Rightarrow>
        (case stored_score user of
           None \<Rightarrow> \<lparr>score = JNum (5 / 10), reason = ''Legitimacy not assessed''\<rparr>
         | Some v \<Rightarrow>
            if v = 0 then \<lparr>score = JNum (5 / 10), reason = ''Legitimacy not assessed''\<rparr>
            else \<lparr>score = JNum v,
                  reason = ''Legitimacy: '' @ show_risk (stored_risk user) @ '' risk''\<rparr>))"

definition calculateBehaviorScore_seller :: "string + assessed_row option \<Rightarrow> score_obj" where
  "calculateBehaviorScore_seller fetched =
    (case fetched of
       Inl e \<Rightarrow> \<lparr>score = JNum (5 / 10), reason = ''Behavior analysis failed''\<rparr>
     | Inr None \<Rightarrow> \<lparr>score = JNum (5 / 10), reason = ''Behavior not assessed''\<rparr>
     | Inr (Some user) \<Rightarrow>
        (case stored_score user of
           None \<Rightarrow> \<lparr>score = JNum (5 / 10), reason = ''Behavior not assessed''\<rparr>
         | Some v \<Rightarrow>
            if v = 0 then \<lparr>score = JNum (5 / 10), reason = ''Behavior not assessed''\<rparr>
            else \<lparr>score = JNum v,
                  reason = ''Behavior: '' @ show_risk (stored_risk user) @ '' risk''\<rparr>))"

subsection \<open>Fraud\<close>

text \<open>
  \<open>Product.findAll\<close> may reject; \<open>fraudDetection.analyzeProduct\<close> catches its own errors
  and always resolves, so what the analyzer sees is the list of \<open>analysis.score\<close> values
  of the seller's products (at most ten).
\<close>

definition calculateFraudScore :: "string + real list \<Rightarrow> score_obj" where
  "calculateFraudScore fetched =
    (case fetched of
       Inl e \<Rightarrow> \<lparr>score = JNum (5 / 10), reason = ''Fraud analysis failed''\<rparr>
     | Inr fraudAnalyses \<Rightarrow>
        if length fraudAnalyses = 0
        then \<lparr>score = JNum (7 / 10), reason = ''No products to analyze''\<rparr>
        else
         (let avgFraudScore = foldl (+) 0 fraudAnalyses / real (length fraudAnalyses)
          in \<lparr>score = JNum avgFraudScore,
              reason = (if avgFraudScore > 7 / 10 then ''Low fraud risk''
                        else ''Fraud risk detected'')\<rparr>))"

subsection \<open>Transaction history\<close>

text \<open>
  The analyzer draws its data with \<open>Math.random\<close>; the draw is the argument.
  \<open>totalTransactions\<close> is at least 1.
\<close>

record mockTransactionData =
  totalTransactions :: nat
  successfulTransactions :: nat
  totalVolume :: real
  disputeRate :: real
  averageRating :: real

definition calculateTransactionScore :: "mockTransactionData \<Rightarrow> score_obj" where
  "calculateTransactionScore m =
    (let score0 = 8 / 10;
         successRate = real (successfulTransactions m) / real (totalTransactions m);
         score1 = score0 + (successRate - 8 / 10) * (4 / 10);
         volumeScore = min (totalVolume m / 20000) 1;
         score2 = score1 + volumeScore * (2 / 10);
         score3 = (if disputeRate m > 2 / 100
                   then score2 - (disputeRate m - 2 / 100) * 10 else score2);
         ratingScore = (averageRating m - 1) / 4;
         score4 = score3 + ratingScore * (2 / 10)
     in \<lparr>score = JNum (max 0 (min score4 1)),
         reason = (if successRate > 9 / 10 then ''Excellent transaction history''
                   else ''Good transaction history'')\<rparr>)"

subsection \<open>Product quality\<close>

record listed_product =
  lp_status :: string
  lp_ai_verification_score :: "real option"
  lp_price :: real

definition calculateProductQualityScore :: "string + listed_product list \<Rightarrow> score_obj" where
  "calculateProductQualityScore fetched =
    (case fetched of
       Inl e \<Rightarrow> \<lparr>score = JNum (5 / 10), reason = ''Product quality analysis failed''\<rparr>
     | Inr listed \<Rightarrow>
        (case listed of
           [] \<Rightarrow> \<lparr>score = JNum (3 / 10), reason = ''No products listed''\<rparr>
         | p # ps \<Rightarrow>
            (let totalProducts = real (length listed);
                 activeProducts = real (length (filter (\<lambda>x. lp_status x = ''active'') listed));
                 flaggedProducts = real (length (filter (\<lambda>x. lp_status x = ''flagged'') listed));
                 verified = List.map_filter lp_ai_verification_score listed;
                 avgVerificationScore =
                   (if length verified > 0
                    then foldl (+) 0 verified / real (length verified) else 0);
                 priceMin = foldl min (lp_price p) (map lp_price ps);
                 priceMax = foldl max (lp_price p) (map lp_price ps);
                 activeRatio = activeProducts / totalProducts;
                 flaggedRatio = flaggedProducts / totalProducts;
                 diversityScore = min ((priceMax - priceMin) / 1000) 1;
                 total = 0 + activeRatio * (3 / 10) + (1 - flaggedRatio) * (2 / 10)
                           + avgVerificationScore * (3 / 10) + diversityScore * (2 / 10)
             in \<lparr>score = JNum (min total 1),
                 reason = (if activeRatio > 8 / 10 then ''High quality products''
                           else ''Mixed product quality'')\<rparr>)))"

subsection \<open>calculateSellerScore\<close>

text \<open>
  What the six fetches and \<open>User.findByPk\<close> answer during one call.  The six analyzers
  run under \<open>Promise.all\<close>; each returns a score object, so the array always resolves.
\<close>

record score_sources =
  src_user :: "string + user_row option"
  src_linked_accounts :: "string + linked_accounts_result"
  src_legitimacy :: "string + assessed_row option"
  src_behavior :: "string + assessed_row option"
  src_fraud :: "string + real list"
  src_transactions :: mockTransactionData
  src_products :: "string + listed_product list"

fun analyzer_result :: "score_sources \<Rightarrow> factor \<Rightarrow> score_obj" where
  "analyzer_result src socialVerification = calculateSocialVerificationScore (src_linked_accounts src)"
| "analyzer_result src legitimacyScore = calculateLegitimacyScore (src_legitimacy src)"
| "analyzer_result src behaviorScore = calculateBehaviorScore_seller (src_behavior src)"
| "analyzer_result src fraudScore = calculateFraudScore (src_fraud src)"
| "analyzer_result src transactionHistory = calculateTransactionScore (src_transactions src)"
| "analyzer_result src productQuality = calculateProductQualityScore (src_products src)"

text \<open>
  The returned object: \<open>insights\<close> is a pure summary of the breakdown and
  \<open>updateSellerScore\<close> persists inside its own \<open>try\<close>/\<open>catch\<close>; neither can make the
  call throw, and both are left out.
\<close>

record seller_score =
  ss_userId :: int
  ss_overallScore :: real
  ss_scoreTier :: tier_result
  ss_breakdown :: scores

text \<open>The object handed to \<open>calculateWeightedScore\<close>: one entry per factor.\<close>

definition breakdown_of :: "score_sources \<Rightarrow> scores" where
  "breakdown_of src = (\<lambda>f. Some (analyzer_result src f))"

definition calculateSellerScore :: "int \<Rightarrow> score_sources \<Rightarrow> string + seller_score" where
  "calculateSellerScore userId src =
    (case src_user src of
       Inl e \<Rightarrow> Inl (''Seller score calculation failed: '' @ e)
     | Inr None \<Rightarrow> Inl (''Seller score calculation failed: '' @ ''User not found'')
     | Inr (Some user) \<Rightarrow>
        (let breakdown = breakdown_of src;
             overallScore = calculateWeightedScore breakdown;
             scoreTier = getScoreTier overallScore
         in Inr \<lparr>ss_userId = userId, ss_overallScore = overallScore,
                 ss_scoreTier = scoreTier, ss_breakdown = breakdown\<rparr>))"

text \<open>A call in which every fetch of every analyzer rejects.\<close>

definition all_fetches_fail :: score_sources where
  "all_fetches_fail =
    \<lparr>src_user = Inr (Some \<lparr>u_username = ''seller'', u_smartAccountAddress = ''0xS2''\<rparr>),
     src_linked_accounts = Inl ''Failed to get linked accounts'',
     src_legitimacy = Inl ''connection refused'',
     src_behavior = Inl ''connection refused'',
     src_fraud = Inl ''connection refused'',
     src_transactions =
       \<lparr>totalTransactions = 50, successfulTransactions = 40, totalVolume = 10000,
        disputeRate = 1 / 100, averageRating = 4\<rparr>,
     src_products = Inl ''connection refused''\<rparr>"

subsection \<open>The aggregate as the specification words it\<close>

text \<open>
  The specification's partial score carries a value, a weight and a failed flag, and a
  partial is failed when the data fetch of its analyzer threw or returned an error.
  The overall value is the sum of value times weight over the partials that are not
  failed, divided by the sum of their weights.
\<close>

record partial_score =
  ps_value :: real
  ps_weight :: real
  ps_failed :: bool

definition spec_overallValue :: "partial_score list \<Rightarrow> real" where
  "spec_overallValue ps =
    (\<Sum>p\<leftarrow>filter (\<lambda>p. \<not> ps_failed p) ps. ps_value p * ps_weight p)
    / (\<Sum>p\<leftarrow>filter (\<lambda>p. \<not> ps_failed p) ps. ps_weight p)"

text \<open>
  Whether the data fetch of an analyzer was rejected.  The transaction-history analyzer
  fetches nothing.
\<close>

fun fetch_rejected :: "score_sources \<Rightarrow> factor \<Rightarrow> bool" where
  "fetch_rejected src socialVerification = isl (src_linked_accounts src)"
| "fetch_rejected src legitimacyScore = isl (src_legitimacy src)"
| "fetch_rejected src behaviorScore = isl (src_behavior src)"
| "fetch_rejected src fraudScore = isl (src_fraud src)"
| "fetch_rejected src transactionHistory = False"
| "fetch_rejected src productQuality = isl (src_products src)"

text \<open>The number in a score; a score that is no number has none and reads as 0 here.\<close>

fun number_of :: "jsval \<Rightarrow> real" where
  "number_of (JNum v) = v"
| "number_of (JStr s) = 0"
| "number_of JUndefined = 0"

text \<open>
  The partial scores of one evaluation in the specification's sense: the value is what
  the analyzer returned, the weight is the factor's weight, and the partial is failed
  when the analyzer's fetch was rejected.
\<close>

definition analyzer_partials :: "score_sources \<Rightarrow> partial_score list" where
  "analyzer_partials src =
    map (\<lambda>fw. \<lparr>ps_value = number_of (score (analyzer_result src (fst fw))),
                ps_weight = snd fw,
                ps_failed = fetch_rejected src (fst fw)\<rparr>)
        scoringWeights"

text \<open>The score an analyzer's \<open>catch\<close> block returns.\<close>

fun fallback_score :: "factor \<Rightarrow> real" where
  "fallback_score socialVerification = 3 / 10"
| "fallback_score legitimacyScore = 5 / 10"
| "fallback_score behaviorScore = 5 / 10"
| "fallback_score fraudScore = 5 / 10"
| "fallback_score transactionHistory = 5 / 10"
| "fallback_score productQuality = 5 / 10"

section \<open>The scoring scheduler\<close>

text \<open>
  \<open>startScoringScheduler\<close> registers one \<open>setInterval\<close> callback whose body is
  \<open>await this.processScoringQueue()\<close>; the service keeps no flag, lock or counter.
  A run of \<open>processScoringQueue\<close> fetches its batch of sellers and then awaits
  \<open>calculateSellerScore\<close> for one seller after the other, so other callbacks can run
  between two sellers.  The state lists, for every run in flight, the sellers it has
  still to process, and the sellers scored so far.
\<close>

record scheduler =
  in_flight :: "int list list"
  scored :: "int list"

datatype sched_event =
  Tick "int list"
  | Advance nat

fun scheduler_step :: "scheduler \<Rightarrow> sched_event \<Rightarrow> scheduler" where
  "scheduler_step s (Tick sellers) = s\<lparr>in_flight := in_flight s @ [sellers]\<rparr>"
| "scheduler_step s (Advance i) =
    (if i < length (in_flight s)
     then (case in_flight s ! i of
             [] \<Rightarrow> s\<lparr>in_flight := take i (in_flight s) @ drop (Suc i) (in_flight s)\<rparr>
           | seller # rest \<Rightarrow>
               s\<lparr>in_flight := (in_flight s)[i := rest], scored := scored s @ [seller]\<rparr>)
     else s)"

definition scheduler_start :: scheduler where
  "scheduler_start = \<lparr>in_flight = [], scored = []\<rparr>"

definition run_scheduler :: "sched_event list \<Rightarrow> scheduler" where
  "run_scheduler es = foldl scheduler_step scheduler_start es"

section \<open>Verified properties\<close>

subsection \<open>Aggregation and tiers\<close>

lemma weighted_step_counted:
  "weighted_step scores acc fw =
    (case counted_value scores (fst fw) of
       None \<Rightarrow> acc
     | Some v \<Rightarrow> (fst acc + v * snd fw, snd acc + snd fw))"
  by (simp add: weighted_step_def counted_value_def split: option.splits jsval.splits)

lemma behavior_step_counted:
  "behavior_step acc ca =
    (case counted_analysis (snd ca) of
       None \<Rightarrow> acc
     | Some v \<Rightarrow> (fst acc + v * behaviorWeights (fst ca), snd acc + behaviorWeights (fst ca)))"
  by (simp add: behavior_step_def counted_analysis_def split: option.splits jsval.splits)

text \<open>
  Both loops are instances of one fold: add \<open>v * w\<close> and \<open>w\<close> for the entries that carry a
  value, skip the others.
\<close>

lemma foldl_counted_sums:
  fixes val :: "'a \<Rightarrow> real option" and wt :: "'a \<Rightarrow> real"
  assumes step: "\<And>acc x. f acc x =
      (case val x of None \<Rightarrow> acc | Some v \<Rightarrow> (fst acc + v * wt x, snd acc + wt x))"
  shows "foldl f acc xs =
    (fst acc + (\<Sum>x\<leftarrow>filter (\<lambda>x. val x \<noteq> None) xs. the (val x) * wt x),
     snd acc + (\<Sum>x\<leftarrow>filter (\<lambda>x. val x \<noteq> None) xs. wt x))"
proof (induction xs arbitrary: acc)
  case Nil
  show ?case by simp
next
  case (Cons x xs)
  have "foldl f acc (x # xs) = foldl f (f acc x) xs"
    by simp
  also note Cons.IH [of "f acc x"]
  finally show ?case
    by (cases "val x") (simp_all add: step [of acc x] algebra_simps)
qed

lemma sum_list_pos_weights:
  fixes wt :: "'a \<Rightarrow> real"
  shows "xs \<noteq> [] \<Longrightarrow> \<forall>x \<in> set xs. 0 < wt x \<Longrightarrow> 0 < (\<Sum>x\<leftarrow>xs. wt x)"
proof (induction xs)
  case Nil
  then show ?case by simp
next
  case (Cons x xs)
  show ?case
  proof (cases "xs = []")
    case True
    with Cons.prems show ?thesis by simp
  next
    case False
    with Cons have "0 < (\<Sum>x\<leftarrow>xs. wt x)" by simp
    moreover from Cons.prems have "0 < wt x" by simp
    ultimately show ?thesis by simp
  qed
qed

lemma scoringWeights_pos: "fw \<in> set scoringWeights \<Longrightarrow> 0 < snd fw"
  by (auto simp: scoringWeights_def)

lemma behaviorWeights_pos: "0 < behaviorWeights c"
  by (cases c) simp_all

lemma calculateWeightedScore_none:
  assumes "\<forall>fw \<in> set scoringWeights. counted_value scores (fst fw) = None"
  shows "calculateWeightedScore scores = 5 / 10"
proof -
  from assms have "filter (\<lambda>fw. counted_value scores (fst fw) \<noteq> None) scoringWeights = []"
    by (simp add: filter_empty_conv)
  then have "foldl (weighted_step scores) (0, 0) scoringWeights = (0, 0)"
    using foldl_counted_sums [where f = "weighted_step scores"
        and val = "\<lambda>fw. counted_value scores (fst fw)" and wt = snd
        and acc = "(0, 0)" and xs = scoringWeights]
    by (simp add: weighted_step_counted)
  then show ?thesis
    by (simp add: calculateWeightedScore_def)
qed

text \<open>
  Claim C2.  The bands of \<open>scoreTiers\<close> end at 0.89, 0.79, 0.69, 0.59 and 0.39 and are
  tested with \<open>\<le>\<close>, so they are not contiguous: 0.8999 lies in no band and takes the
  fall-through, the Very Poor entry, although the smaller value 0.85 is Very Good.
\<close>

theorem getScoreTier_band_gap:
  "getScoreTier (8999 / 10000) =
     \<lparr>res_tier = None, res_label = ''Very Poor'', res_min = 0, res_max = 39 / 100\<rparr>
   \<and> res_tier (getScoreTier (85 / 100)) = Some veryGood
   \<and> res_tier (getScoreTier (9 / 10)) = Some excellent"
  by (simp add: getScoreTier_def scoreTiers_def veryPoor_config_def)

text \<open>
  Claim C6, as stated, fails: with no counted partial the value is 0.5, but its tier is
  not Fair.
\<close>

theorem all_failed_is_fair_counterexample:
  "\<not> (calculateWeightedScore no_scores = 5 / 10
      \<and> res_tier (getScoreTier (calculateWeightedScore no_scores)) = Some fair)"
  by (simp add: calculateWeightedScore_def scoringWeights_def weighted_step_def no_scores_def
      getScoreTier_def scoreTiers_def veryPoor_config_def)

text \<open>
  Claim C6, amended.  If no partial score is counted, the aggregate is the neutral value
  0.5, and the tier derived from it is Poor, the band from 0.4 to 0.59.
\<close>

theorem all_failed_is_neutral_poor:
  assumes "\<forall>f. counted_value scores f = None"
  shows "calculateWeightedScore scores = 5 / 10
    \<and> res_tier (getScoreTier (calculateWeightedScore scores)) = Some poor
    \<and> res_label (getScoreTier (calculateWeightedScore scores)) = ''Poor''"
proof -
  from assms have "calculateWeightedScore scores = 5 / 10"
    by (simp add: calculateWeightedScore_none)
  then show ?thesis
    by (simp add: getScoreTier_def scoreTiers_def veryPoor_config_def)
qed

theorem all_failed_is_neutral_poor_witness:
  "(\<forall>f. counted_value no_scores f = None)
   \<and> calculateWeightedScore no_scores = 5 / 10
   \<and> res_tier (getScoreTier (calculateWeightedScore no_scores)) = Some poor"
proof -
  have h: "\<forall>f. counted_value no_scores f = None"
    by (simp add: counted_value_def no_scores_def)
  from h all_failed_is_neutral_poor [OF h] show ?thesis
    by simp
qed

subsection \<open>Escrow: helper facts\<close>

lemma committed_emit: "committed (emit e w) = committed w"
  by (simp add: emit_def)

lemma filter_out_then_in: "filter (\<lambda>x. f x = k) (filter (\<lambda>x. f x \<noteq> k) xs) = []"
  by (induction xs) auto

lemma rollbackOrder_clears:
  assumes "orders_of (committed w) oid = []" and "transactions_of (committed w) oid = []"
  shows "orders_of (committed (rollbackOrder env oid w)) oid = []
       \<and> transactions_of (committed (rollbackOrder env oid w)) oid = []"
  using assms
  by (simp add: rollbackOrder_def emit_def Let_def orders_of_def transactions_of_def
      filter_out_then_in)

subsection \<open>createProductEscrow\<close>

lemma createProductEscrow_reaches_settlement:
  assumes "users (committed w) buyerId = Some buyer"
    and "products (committed w) productId = Some product"
    and "p_status product = ''active''"
    and "quantity \<le> p_quantity product"
    and "uploadJSON env = Some metadataUri"
    and "supportedTokens env tokenSymbol = Some tokenAddress"
    and "generateOrderId env \<notin> set (map o_order_id (orders (committed w)))"
    and "generateTransactionId env \<notin> set (map t_transaction_id (transactions (committed w)))"
  shows "\<exists>tx1. createProductEscrow env buyerId productId quantity tokenSymbol w =
      purchase_settle env buyerId productId quantity tokenSymbol product tokenAddress tx1
        (emit (External ''ipfsService.uploadJSON'') (emit (TxBegin ''transaction'') w))"
  using assms by (simp add: createProductEscrow_def Let_def committed_emit) blast

lemma purchase_settle_failure:
  assumes "settlement env = ExecFailure err"
  shows "purchase_settle env buyerId productId quantity tokenSymbol product tokenAddress tx1 w2 =
      purchase_failed (''Escrow creation failed: '' @ err)
        (rollbackOrder env (generateOrderId env)
           (emit (External ''paymentService.createEscrowPurchase'') w2))"
  using assms by (simp add: purchase_settle_def Let_def)

text \<open>
  Claim C3.  When the purchase reaches the payment service and the service answers
  \<open>success: false\<close>, \<open>createProductEscrow\<close> throws
  \<open>Purchase failed: Escrow creation failed: ...\<close>, and afterwards the committed store
  holds no order and no ledger entry with the generated order id (an id that no row
  carried before the call).
\<close>

theorem createProductEscrow_settlement_failure:
  assumes buyer: "users (committed w) buyerId = Some buyer"
    and product: "products (committed w) productId = Some product"
    and active: "p_status product = ''active''"
    and stock: "quantity \<le> p_quantity product"
    and upload: "uploadJSON env = Some metadataUri"
    and token: "supportedTokens env tokenSymbol = Some tokenAddress"
    and fresh_order: "orders_of (committed w) (generateOrderId env) = []"
    and fresh_entries: "transactions_of (committed w) (generateOrderId env) = []"
    and fresh_txn:
      "generateTransactionId env \<notin> set (map t_transaction_id (transactions (committed w)))"
    and failure: "settlement env = ExecFailure err"
  shows "fst (createProductEscrow env buyerId productId quantity tokenSymbol w)
           = Inl (''Purchase failed: Escrow creation failed: '' @ err)
       \<and> orders_of
            (committed (snd (createProductEscrow env buyerId productId quantity tokenSymbol w)))
            (generateOrderId env) = []
       \<and> transactions_of
            (committed (snd (createProductEscrow env buyerId productId quantity tokenSymbol w)))
            (generateOrderId env) = []"
proof -
  let ?w3 = "emit (External ''paymentService.createEscrowPurchase'')
              (emit (External ''ipfsService.uploadJSON'') (emit (TxBegin ''transaction'') w))"
  from fresh_order
  have no_dup: "generateOrderId env \<notin> set (map o_order_id (orders (committed w)))"
    by (auto simp: orders_of_def filter_empty_conv)
  from createProductEscrow_reaches_settlement
         [OF buyer product active stock upload token no_dup fresh_txn]
  have run: "createProductEscrow env buyerId productId quantity tokenSymbol w =
      purchase_failed (''Escrow creation failed: '' @ err)
        (rollbackOrder env (generateOrderId env) ?w3)"
    by (auto simp: purchase_settle_failure [OF failure])
  have same: "committed ?w3 = committed w"
    by (simp add: committed_emit)
  from fresh_order fresh_entries same
  have "orders_of (committed (rollbackOrder env (generateOrderId env) ?w3))
          (generateOrderId env) = []
      \<and> transactions_of (committed (rollbackOrder env (generateOrderId env) ?w3))
          (generateOrderId env) = []"
    using rollbackOrder_clears [of ?w3 "generateOrderId env" env] by simp
  then show ?thesis
    by (simp add: run purchase_failed_def committed_emit)
qed

theorem createProductEscrow_settlement_failure_witness:
  "fst (createProductEscrow env_fail 1 42 2 ''USDC'' world0)
     = Inl ''Purchase failed: Escrow creation failed: Insufficient USDC balance''
   \<and> orders_of (committed (snd (createProductEscrow env_fail 1 42 2 ''USDC'' world0))) ''ORD-A1'' = []
   \<and> transactions_of (committed (snd (createProductEscrow env_fail 1 42 2 ''USDC'' world0)))
        ''ORD-A1'' = []"
  using createProductEscrow_settlement_failure
    [of world0 1 "\<lparr>u_username = ''buyer'', u_smartAccountAddress = ''0xB1''\<rparr>" 42
        "\<lparr>p_seller_id = 2, p_name = ''widget'', p_price = 100, p_quantity = 5,
          p_status = ''active''\<rparr>"
        2 env_fail "''bafymeta''" "''USDC''" "''0xUSDC''" "''Insufficient USDC balance''"]
  by (simp add: env_fail_def world0_def db0_def usdc_only_def orders_of_def transactions_of_def)

text \<open>
  Claim C4.  On a purchase that passes validation, \<open>transaction\<close> is begun first, the
  payment service is called next and \<open>transaction.commit()\<close> comes only after the call:
  the order, the ledger entry and the stock decrement are still uncommitted while the
  settlement runs.  \<open>releaseEscrow\<close> on a paid order shows the other order of events:
  commit, then the external call.
\<close>

theorem createProductEscrow_commits_after_settlement:
  "events (snd (createProductEscrow env_ok 1 42 2 ''USDC'' world0)) =
      [TxBegin ''transaction'', External ''ipfsService.uploadJSON'',
       External ''paymentService.createEscrowPurchase'', TxCommit ''transaction'',
       TxBegin ''updateTransaction'', TxCommit ''updateTransaction'']
   \<and> open_at_external 0 (events (snd (createProductEscrow env_ok 1 42 2 ''USDC'' world0)))
   \<and> events (snd (releaseEscrow env_release_ok 1 ''ORD-A1'' (world_with_order ''paid''))) =
      [TxBegin ''dbTransaction'', TxCommit ''dbTransaction'',
       External ''paymentService.releaseEscrow'',
       TxBegin ''updateTransaction'', TxCommit ''updateTransaction'']
   \<and> \<not> open_at_external 0
        (events (snd (releaseEscrow env_release_ok 1 ''ORD-A1'' (world_with_order ''paid''))))"
  by (simp add: createProductEscrow_def purchase_settle_def emit_def Let_def
      releaseEscrow_def release_settle_def release_writes_def release_entry_def no_escrow_def
      store_accepts_def env_ok_def world0_def env_release_ok_def world_with_order_def
      order_with_status_def submitted_entry_def db0_def usdc_only_def)

text \<open>
  Claim C5.  With five pieces in stock, a purchase of two whose settlement fails ends
  with five pieces in stock again: the decrement was made inside \<open>transaction\<close>, which
  the outer \<open>catch\<close> rolls back, so the stock is not left at three.
\<close>

theorem createProductEscrow_failure_restores_quantity:
  "product_quantity (committed world0) 42 = Some 5
   \<and> fst (createProductEscrow env_fail 1 42 2 ''USDC'' world0)
       = Inl ''Purchase failed: Escrow creation failed: Insufficient USDC balance''
   \<and> product_quantity (committed (snd (createProductEscrow env_fail 1 42 2 ''USDC'' world0))) 42
       = Some 5
   \<and> product_quantity (committed (snd (createProductEscrow env_ok 1 42 2 ''USDC'' world0))) 42
       = Some 3
   \<and> events (snd (createProductEscrow env_fail 1 42 2 ''USDC'' world0)) =
      [TxBegin ''transaction'', External ''ipfsService.uploadJSON'',
       External ''paymentService.createEscrowPurchase'',
       TxBegin ''rollbackOrder'', TxCommit ''rollbackOrder'', TxRollback ''transaction'']"
  by (simp add: createProductEscrow_def purchase_settle_def purchase_failed_def
      rollbackOrder_def emit_def Let_def env_fail_def env_ok_def world0_def db0_def
      usdc_only_def product_quantity_def)

subsection \<open>releaseEscrow\<close>

text \<open>
  Claim C8.  The buyer releases a paid order that has an escrow address, against a
  store that enforces the declared status ENUM.  \<open>order.update\<close> is refused
  \<open>release_pending\<close>, so the call throws before \<open>dbTransaction.commit()\<close>:
  \<open>dbTransaction\<close> is rolled back, the payment service is never called, the store is
  as it was, and the order has no \<open>escrow_release\<close> entry that could be marked failed.
  The same happens when the payment service would have succeeded, so no release
  completes on such a store.  A caller who is not the buyer is turned away before that.
\<close>

theorem releaseEscrow_dies_at_release_pending:
  "fst (releaseEscrow env_enum_fail 1 ''ORD-A1'' (world_with_order ''paid''))
     = Inl (''Release failed: '' @ enum_error ''enum_orders_status'' ''release_pending'')
   \<and> events (snd (releaseEscrow env_enum_fail 1 ''ORD-A1'' (world_with_order ''paid'')))
     = [TxBegin ''dbTransaction'', TxRollback ''dbTransaction'']
   \<and> committed (snd (releaseEscrow env_enum_fail 1 ''ORD-A1'' (world_with_order ''paid'')))
     = committed (world_with_order ''paid'')
   \<and> transactions_of
        (committed (snd (releaseEscrow env_enum_fail 1 ''ORD-A1'' (world_with_order ''paid''))))
        ''ORD-A1'' = [submitted_entry]
   \<and> order_status
        (committed (snd (releaseEscrow env_enum_fail 1 ''ORD-A1'' (world_with_order ''paid''))))
        ''ORD-A1'' = Some ''paid''
   \<and> fst (releaseEscrow env_enum_ok 1 ''ORD-A1'' (world_with_order ''paid''))
     = Inl (''Release failed: '' @ enum_error ''enum_orders_status'' ''release_pending'')
   \<and> events (snd (releaseEscrow env_enum_ok 1 ''ORD-A1'' (world_with_order ''paid'')))
     = [TxBegin ''dbTransaction'', TxRollback ''dbTransaction'']
   \<and> fst (releaseEscrow env_enum_fail 2 ''ORD-A1'' (world_with_order ''paid''))
     = Inl ''Release failed: Only buyer can release funds''
   \<and> committed (snd (releaseEscrow env_enum_fail 2 ''ORD-A1'' (world_with_order ''paid'')))
     = committed (world_with_order ''paid'')"
  by (simp add: releaseEscrow_def release_settle_def release_writes_def release_entry_def
      release_failed_def no_escrow_def store_accepts_def order_status_enum_def emit_def Let_def
      transactions_of_def order_status_def env_enum_fail_def env_enum_ok_def
      world_with_order_def order_with_status_def submitted_entry_def db0_def usdc_only_def)

subsection \<open>raiseDispute\<close>

text \<open>
  Claim C10.  The seller raises a dispute on a completed order, against a store that
  enforces the declared status ENUM, with the payment service set to fail.  No status
  is asked for, but \<open>order.update\<close> is refused \<open>dispute_pending\<close>: the call throws
  before \<open>dbTransaction.commit()\<close>, the payment service is never called,
  \<open>rollbackOrderStatus\<close> never runs, and the order is still \<open>completed\<close>, not
  \<open>paid\<close>.  A caller who is neither buyer nor seller is turned away before that.
\<close>

theorem raiseDispute_dies_at_dispute_pending:
  "fst (raiseDispute env_enum_fail 2 ''ORD-A1'' ''late'' (world_with_order ''completed''))
     = Inl (''Dispute failed: '' @ enum_error ''enum_orders_status'' ''dispute_pending'')
   \<and> events (snd (raiseDispute env_enum_fail 2 ''ORD-A1'' ''late''
                    (world_with_order ''completed'')))
     = [TxBegin ''dbTransaction'', TxRollback ''dbTransaction'']
   \<and> committed (snd (raiseDispute env_enum_fail 2 ''ORD-A1'' ''late''
                       (world_with_order ''completed'')))
     = committed (world_with_order ''completed'')
   \<and> order_status
        (committed (snd (raiseDispute env_enum_fail 2 ''ORD-A1'' ''late''
                          (world_with_order ''completed''))))
        ''ORD-A1'' = Some ''completed''
   \<and> fst (raiseDispute env_enum_fail 1 ''ORD-A1'' ''late'' (world_with_order ''pending''))
     = Inl (''Dispute failed: '' @ enum_error ''enum_orders_status'' ''dispute_pending'')
   \<and> order_status
        (committed (snd (raiseDispute env_enum_fail 1 ''ORD-A1'' ''late''
                          (world_with_order ''pending''))))
        ''ORD-A1'' = Some ''pending''
   \<and> fst (raiseDispute env_enum_fail 3 ''ORD-A1'' ''late'' (world_with_order ''completed''))
     = Inl ''Dispute failed: Only buyer or seller can raise dispute''"
  by (simp add: raiseDispute_def dispute_settle_def dispute_writes_def dispute_entry_def
      dispute_failed_def store_accepts_def order_status_enum_def emit_def Let_def
      order_status_def env_enum_fail_def world_with_order_def order_with_status_def
      submitted_entry_def db0_def usdc_only_def)

subsection \<open>Analyzer failures\<close>

lemma social_score_is_number: "is_number (score (calculateSocialVerificationScore x))"
  by (cases x) (simp_all add: calculateSocialVerificationScore_def Let_def)

lemma legitimacy_score_is_number: "is_number (score (calculateLegitimacyScore x))"
  by (simp add: calculateLegitimacyScore_def split: sum.split option.split)

lemma behavior_score_is_number: "is_number (score (calculateBehaviorScore_seller x))"
  by (simp add: calculateBehaviorScore_seller_def split: sum.split option.split)

lemma fraud_score_is_number: "is_number (score (calculateFraudScore x))"
  by (cases x) (simp_all add: calculateFraudScore_def Let_def)

lemma transaction_score_is_number: "is_number (score (calculateTransactionScore m))"
  by (simp add: calculateTransactionScore_def Let_def)

lemma quality_score_is_number: "is_number (score (calculateProductQualityScore x))"
  by (simp add: calculateProductQualityScore_def Let_def split: sum.split list.split)

lemma analyzer_result_is_number: "is_number (score (analyzer_result src f))"
  by (cases f)
     (simp_all add: social_score_is_number legitimacy_score_is_number behavior_score_is_number
        fraud_score_is_number transaction_score_is_number quality_score_is_number)

text \<open>
  Claim C7.  Once the seller is found, \<open>calculateSellerScore\<close> returns a score whatever
  the data fetches of the analyzers do: a fetch that rejects is turned, inside its
  analyzer, into that analyzer's fixed fallback object (score 0.5, or 0.3 for social
  verification, with a reason ending in \<open>failed\<close>); every entry of the breakdown carries
  a number, and the overall score and tier are computed from the breakdown.
\<close>

theorem analyzer_failures_never_abort:
  assumes "src_user src = Inr (Some user)"
  shows "calculateSellerScore userId src =
           Inr \<lparr>ss_userId = userId,
                ss_overallScore = calculateWeightedScore (\<lambda>f. Some (analyzer_result src f)),
                ss_scoreTier =
                  getScoreTier (calculateWeightedScore (\<lambda>f. Some (analyzer_result src f))),
                ss_breakdown = (\<lambda>f. Some (analyzer_result src f))\<rparr>
       \<and> (\<forall>f. is_number (score (analyzer_result src f)))
       \<and> (\<forall>e. src_linked_accounts src = Inl e \<longrightarrow>
             analyzer_result src socialVerification =
               \<lparr>score = JNum (3 / 10), reason = ''Social verification analysis failed''\<rparr>)
       \<and> (\<forall>e. src_legitimacy src = Inl e \<longrightarrow>
             analyzer_result src legitimacyScore =
               \<lparr>score = JNum (5 / 10), reason = ''Legitimacy analysis failed''\<rparr>)
       \<and> (\<forall>e. src_behavior src = Inl e \<longrightarrow>
             analyzer_result src behaviorScore =
               \<lparr>score = JNum (5 / 10), reason = ''Behavior analysis failed''\<rparr>)
       \<and> (\<forall>e. src_fraud src = Inl e \<longrightarrow>
             analyzer_result src fraudScore =
               \<lparr>score = JNum (5 / 10), reason = ''Fraud analysis failed''\<rparr>)
       \<and> (\<forall>e. src_products src = Inl e \<longrightarrow>
             analyzer_result src productQuality =
               \<lparr>score = JNum (5 / 10), reason = ''Product quality analysis failed''\<rparr>)"
proof (intro conjI allI impI)
  from assms show "calculateSellerScore userId src =
           Inr \<lparr>ss_userId = userId,
                ss_overallScore = calculateWeightedScore (\<lambda>f. Some (analyzer_result src f)),
                ss_scoreTier =
                  getScoreTier (calculateWeightedScore (\<lambda>f. Some (analyzer_result src f))),
                ss_breakdown = (\<lambda>f. Some (analyzer_result src f))\<rparr>"
    by (simp add: calculateSellerScore_def breakdown_of_def Let_def)
next
  fix f show "is_number (score (analyzer_result src f))"
    by (rule analyzer_result_is_number)
next
  fix e assume "src_linked_accounts src = Inl e"
  then show "analyzer_result src socialVerification =
               \<lparr>score = JNum (3 / 10), reason = ''Social verification analysis failed''\<rparr>"
    by (simp add: calculateSocialVerificationScore_def)
next
  fix e assume "src_legitimacy src = Inl e"
  then show "analyzer_result src legitimacyScore =
               \<lparr>score = JNum (5 / 10), reason = ''Legitimacy analysis failed''\<rparr>"
    by (simp add: calculateLegitimacyScore_def)
next
  fix e assume "src_behavior src = Inl e"
  then show "analyzer_result src behaviorScore =
               \<lparr>score = JNum (5 / 10), reason = ''Behavior analysis failed''\<rparr>"
    by (simp add: calculateBehaviorScore_seller_def)
next
  fix e assume "src_fraud src = Inl e"
  then show "analyzer_result src fraudScore =
               \<lparr>score = JNum (5 / 10), reason = ''Fraud analysis failed''\<rparr>"
    by (simp add: calculateFraudScore_def)
next
  fix e assume "src_products src = Inl e"
  then show "analyzer_result src productQuality =
               \<lparr>score = JNum (5 / 10), reason = ''Product quality analysis failed''\<rparr>"
    by (simp add: calculateProductQualityScore_def)
qed

lemma all_fetches_fail_overall:
  "calculateWeightedScore (\<lambda>f. Some (analyzer_result all_fetches_fail f)) = 5 / 10"
  by (simp add: calculateWeightedScore_def scoringWeights_def weighted_step_def
      all_fetches_fail_def calculateSocialVerificationScore_def calculateLegitimacyScore_def
      calculateBehaviorScore_seller_def calculateFraudScore_def calculateTransactionScore_def
      calculateProductQualityScore_def Let_def)

theorem analyzer_failures_never_abort_witness:
  "src_user all_fetches_fail
     = Inr (Some \<lparr>u_username = ''seller'', u_smartAccountAddress = ''0xS2''\<rparr>)
   \<and> (\<exists>res. calculateSellerScore 7 all_fetches_fail = Inr res
          \<and> ss_overallScore res = 5 / 10
          \<and> res_tier (ss_scoreTier res) = Some poor
          \<and> ss_breakdown res socialVerification =
               Some \<lparr>score = JNum (3 / 10), reason = ''Social verification analysis failed''\<rparr>
          \<and> ss_breakdown res fraudScore =
               Some \<lparr>score = JNum (5 / 10), reason = ''Fraud analysis failed''\<rparr>)"
proof -
  have found: "src_user all_fetches_fail
     = Inr (Some \<lparr>u_username = ''seller'', u_smartAccountAddress = ''0xS2''\<rparr>)"
    by (simp add: all_fetches_fail_def)
  have social: "src_linked_accounts all_fetches_fail = Inl ''Failed to get linked accounts''"
    and fraud: "src_fraud all_fetches_fail = Inl ''connection refused''"
    by (simp_all add: all_fetches_fail_def)
  note inst = analyzer_failures_never_abort [OF found, of 7]
  from inst have run: "calculateSellerScore 7 all_fetches_fail =
      Inr \<lparr>ss_userId = 7,
           ss_overallScore = calculateWeightedScore (\<lambda>f. Some (analyzer_result all_fetches_fail f)),
           ss_scoreTier =
             getScoreTier (calculateWeightedScore (\<lambda>f. Some (analyzer_result all_fetches_fail f))),
           ss_breakdown = (\<lambda>f. Some (analyzer_result all_fetches_fail f))\<rparr>"
    by (rule conjunct1)
  from inst social have s: "analyzer_result all_fetches_fail socialVerification =
      \<lparr>score = JNum (3 / 10), reason = ''Social verification analysis failed''\<rparr>"
    by blast
  from inst fraud have f: "analyzer_result all_fetches_fail fraudScore =
      \<lparr>score = JNum (5 / 10), reason = ''Fraud analysis failed''\<rparr>"
    by blast
  have tier: "res_tier (getScoreTier (5 / 10)) = Some poor"
    by (simp add: getScoreTier_def scoreTiers_def veryPoor_config_def)
  from found tier s f show ?thesis
    by (simp add: run all_fetches_fail_overall)
qed

subsection \<open>Failed analyzers in the aggregate\<close>

lemma map_filter_counted_empty:
  "(List.map_filter (\<lambda>x. map_option (\<lambda>v. (v, wt x)) (val x)) xs = [])
     = (filter (\<lambda>x. val x \<noteq> None) xs = [])"
  by (induction xs) (auto split: option.splits)

lemma weighted_mean_counted:
  fixes val :: "'a \<Rightarrow> real option" and wt :: "'a \<Rightarrow> real"
  shows "weighted_mean (List.map_filter (\<lambda>x. map_option (\<lambda>v. (v, wt x)) (val x)) xs) =
     (\<Sum>x\<leftarrow>filter (\<lambda>x. val x \<noteq> None) xs. the (val x) * wt x)
     / (\<Sum>x\<leftarrow>filter (\<lambda>x. val x \<noteq> None) xs. wt x)"
proof -
  let ?g = "\<lambda>x. map_option (\<lambda>v. (v, wt x)) (val x)"
  have num: "(\<Sum>vw\<leftarrow>List.map_filter ?g xs. fst vw * snd vw) =
             (\<Sum>x\<leftarrow>filter (\<lambda>x. val x \<noteq> None) xs. the (val x) * wt x)"
    by (induction xs) (auto split: option.splits)
  have den: "(\<Sum>vw\<leftarrow>List.map_filter ?g xs. snd vw) =
             (\<Sum>x\<leftarrow>filter (\<lambda>x. val x \<noteq> None) xs. wt x)"
    by (induction xs) (auto split: option.splits)
  show ?thesis
    unfolding weighted_mean_def num den ..
qed

lemma calculateWeightedScore_counted:
  "calculateWeightedScore scores =
     (if counted_entries scores = [] then 5 / 10 else weighted_mean (counted_entries scores))"
proof -
  let ?present = "filter (\<lambda>fw. counted_value scores (fst fw) \<noteq> None) scoringWeights"
  have fold: "foldl (weighted_step scores) (0, 0) scoringWeights =
      ((\<Sum>fw\<leftarrow>?present. the (counted_value scores (fst fw)) * snd fw), (\<Sum>fw\<leftarrow>?present. snd fw))"
    using foldl_counted_sums [where f = "weighted_step scores"
        and val = "\<lambda>fw. counted_value scores (fst fw)" and wt = snd
        and acc = "(0, 0)" and xs = scoringWeights]
    by (simp add: weighted_step_counted)
  have empty: "(counted_entries scores = []) = (?present = [])"
    unfolding counted_entries_def
    by (rule map_filter_counted_empty [where val = "\<lambda>fw. counted_value scores (fst fw)" and wt = snd])
  have mean: "weighted_mean (counted_entries scores) =
      (\<Sum>fw\<leftarrow>?present. the (counted_value scores (fst fw)) * snd fw) / (\<Sum>fw\<leftarrow>?present. snd fw)"
    unfolding counted_entries_def
    by (rule weighted_mean_counted [where val = "\<lambda>fw. counted_value scores (fst fw)" and wt = snd])
  show ?thesis
  proof (cases "?present = []")
    case True
    then show ?thesis
      by (simp add: calculateWeightedScore_def fold empty)
  next
    case False
    moreover have "\<forall>fw \<in> set ?present. 0 < snd fw"
      by (simp add: scoringWeights_pos)
    ultimately have "0 < (\<Sum>fw\<leftarrow>?present. snd fw)"
      by (rule sum_list_pos_weights)
    with False show ?thesis
      by (simp add: calculateWeightedScore_def fold empty mean)
  qed
qed

lemma calculateBehaviorScore_counted:
  "calculateBehaviorScore analyses =
     (if counted_analyses analyses = [] then 5 / 10
      else weighted_mean (counted_analyses analyses))"
proof -
  let ?present = "filter (\<lambda>ca. counted_analysis (snd ca) \<noteq> None) analyses"
  have fold: "foldl behavior_step (0, 0) analyses =
      ((\<Sum>ca\<leftarrow>?present. the (counted_analysis (snd ca)) * behaviorWeights (fst ca)),
       (\<Sum>ca\<leftarrow>?present. behaviorWeights (fst ca)))"
    using foldl_counted_sums [where f = behavior_step
        and val = "\<lambda>ca. counted_analysis (snd ca)"
        and wt = "\<lambda>ca. behaviorWeights (fst ca)" and acc = "(0, 0)" and xs = analyses]
    by (simp add: behavior_step_counted)
  have empty: "(counted_analyses analyses = []) = (?present = [])"
    unfolding counted_analyses_def
    by (rule map_filter_counted_empty [where val = "\<lambda>ca. counted_analysis (snd ca)"
          and wt = "\<lambda>ca. behaviorWeights (fst ca)"])
  have mean: "weighted_mean (counted_analyses analyses) =
      (\<Sum>ca\<leftarrow>?present. the (counted_analysis (snd ca)) * behaviorWeights (fst ca))
      / (\<Sum>ca\<leftarrow>?present. behaviorWeights (fst ca))"
    unfolding counted_analyses_def
    by (rule weighted_mean_counted [where val = "\<lambda>ca. counted_analysis (snd ca)"
          and wt = "\<lambda>ca. behaviorWeights (fst ca)"])
  show ?thesis
  proof (cases "?present = []")
    case True
    then show ?thesis
      by (simp add: calculateBehaviorScore_def fold empty)
  next
    case False
    moreover have "\<forall>ca \<in> set ?present. 0 < behaviorWeights (fst ca)"
      by (simp add: behaviorWeights_pos)
    ultimately have "0 < (\<Sum>ca\<leftarrow>?present. behaviorWeights (fst ca))"
      by (rule sum_list_pos_weights)
    with False show ?thesis
      by (simp add: calculateBehaviorScore_def fold empty mean)
  qed
qed

lemma breakdown_counted:
  "counted_value (breakdown_of src) f = Some (number_of (score (analyzer_result src f)))"
proof -
  have "is_number (score (analyzer_result src f))"
    by (rule analyzer_result_is_number)
  then show ?thesis
    by (cases "score (analyzer_result src f)") (simp_all add: counted_value_def breakdown_of_def)
qed

lemma map_filter_all_some: "List.map_filter (\<lambda>x. Some (g x)) xs = map g xs"
  by (induction xs) simp_all

lemma breakdown_entries:
  "counted_entries (breakdown_of src) =
     map (\<lambda>fw. (number_of (score (analyzer_result src (fst fw))), snd fw)) scoringWeights"
  unfolding counted_entries_def breakdown_counted
  by (simp add: map_filter_all_some)

lemma fallback_is_counted:
  assumes "fetch_rejected src f"
  shows "counted_value (breakdown_of src) f = Some (fallback_score f)"
proof (cases f)
  case socialVerification
  with assms obtain e where "src_linked_accounts src = Inl e"
    by (auto simp: isl_def)
  with socialVerification show ?thesis
    by (simp add: breakdown_counted calculateSocialVerificationScore_def)
next
  case legitimacyScore
  with assms obtain e where "src_legitimacy src = Inl e"
    by (auto simp: isl_def)
  with legitimacyScore show ?thesis
    by (simp add: breakdown_counted calculateLegitimacyScore_def)
next
  case behaviorScore
  with assms obtain e where "src_behavior src = Inl e"
    by (auto simp: isl_def)
  with behaviorScore show ?thesis
    by (simp add: breakdown_counted calculateBehaviorScore_seller_def)
next
  case fraudScore
  with assms obtain e where "src_fraud src = Inl e"
    by (auto simp: isl_def)
  with fraudScore show ?thesis
    by (simp add: breakdown_counted calculateFraudScore_def)
next
  case transactionHistory
  with assms show ?thesis
    by simp
next
  case productQuality
  with assms obtain e where "src_products src = Inl e"
    by (auto simp: isl_def)
  with productQuality show ?thesis
    by (simp add: breakdown_counted calculateProductQualityScore_def)
qed

lemma all_fetches_fail_spec: "spec_overallValue (analyzer_partials all_fetches_fail) = 1"
  by (simp add: spec_overallValue_def analyzer_partials_def scoringWeights_def
      all_fetches_fail_def calculateTransactionScore_def Let_def)

text \<open>
  Claim C1, as stated, fails.  When the fetches of five analyzers are rejected, the
  specification's overall value is the mean over the one partial that is not failed,
  which is 1; the code returns 0.5, because the five fallback scores are counted.
\<close>

theorem failed_analyzers_counted_counterexample:
  "\<not> (calculateWeightedScore (breakdown_of all_fetches_fail)
        = spec_overallValue (analyzer_partials all_fetches_fail))"
  by (simp add: breakdown_of_def all_fetches_fail_overall all_fetches_fail_spec)

text \<open>
  Claim C1, amended.  Each aggregate is the weighted mean, the sum of score times
  weight divided by the sum of the weights, over exactly the entries that are present
  with a numeric score, and 0.5 when there is none: an entry that is missing or whose
  score is no number is left out of both sums, so the result does not depend on what
  such an entry holds.  A failed analyzer is not such an entry.  The \<open>catch\<close> block of
  an analyzer returns a number (0.3 for social verification, 0.5 for the others and
  for each behaviour sub-analyzer), which is counted at the analyzer's full weight:
  the seller score is always the weighted mean over all six analyzers.
\<close>

theorem aggregate_is_mean_of_counted_entries:
  "calculateWeightedScore scores =
     (if counted_entries scores = [] then 5 / 10 else weighted_mean (counted_entries scores))
   \<and> calculateBehaviorScore analyses =
     (if counted_analyses analyses = [] then 5 / 10
      else weighted_mean (counted_analyses analyses))
   \<and> (\<forall>f. fetch_rejected src f \<longrightarrow>
         counted_value (breakdown_of src) f = Some (fallback_score f))
   \<and> counted_analysis (Some analysis_failed) = Some (5 / 10)
   \<and> calculateWeightedScore (breakdown_of src) =
       weighted_mean
         (map (\<lambda>fw. (number_of (score (analyzer_result src (fst fw))), snd fw)) scoringWeights)"
proof (intro conjI allI impI)
  show "calculateWeightedScore scores =
     (if counted_entries scores = [] then 5 / 10 else weighted_mean (counted_entries scores))"
    by (rule calculateWeightedScore_counted)
  show "calculateBehaviorScore analyses =
     (if counted_analyses analyses = [] then 5 / 10
      else weighted_mean (counted_analyses analyses))"
    by (rule calculateBehaviorScore_counted)
  show "counted_analysis (Some analysis_failed) = Some (5 / 10)"
    by (simp add: counted_analysis_def analysis_failed_def)
  have "counted_entries (breakdown_of src) \<noteq> []"
    by (simp add: breakdown_entries scoringWeights_def)
  then show "calculateWeightedScore (breakdown_of src) =
       weighted_mean
         (map (\<lambda>fw. (number_of (score (analyzer_result src (fst fw))), snd fw)) scoringWeights)"
    by (simp add: calculateWeightedScore_counted breakdown_entries)
next
  fix f assume "fetch_rejected src f"
  then show "counted_value (breakdown_of src) f = Some (fallback_score f)"
    by (rule fallback_is_counted)
qed

lemma two_scores_entries: "counted_entries two_scores = [(8 / 10, 25 / 100), (4 / 10, 15 / 100)]"
  by (simp add: counted_entries_def counted_value_def two_scores_def scoringWeights_def)

lemma two_analyses_entries:
  "counted_analyses two_analyses = [(1, 3 / 10), (5 / 10, 25 / 100)]"
  by (simp add: counted_analyses_def counted_analysis_def two_analyses_def)

theorem aggregate_is_mean_of_counted_entries_witness:
  "counted_entries two_scores = [(8 / 10, 25 / 100), (4 / 10, 15 / 100)]
   \<and> calculateWeightedScore two_scores = 13 / 20
   \<and> counted_analyses two_analyses = [(1, 3 / 10), (5 / 10, 25 / 100)]
   \<and> calculateBehaviorScore two_analyses = 17 / 22
   \<and> fetch_rejected all_fetches_fail fraudScore
   \<and> counted_value (breakdown_of all_fetches_fail) fraudScore = Some (5 / 10)
   \<and> fetch_rejected all_fetches_fail socialVerification
   \<and> counted_value (breakdown_of all_fetches_fail) socialVerification = Some (3 / 10)
   \<and> calculateWeightedScore (breakdown_of all_fetches_fail) = 5 / 10"
proof -
  note inst = aggregate_is_mean_of_counted_entries [of two_scores two_analyses all_fetches_fail]
  have rejected: "fetch_rejected all_fetches_fail fraudScore"
    "fetch_rejected all_fetches_fail socialVerification"
    by (simp_all add: all_fetches_fail_def)
  from inst have "calculateWeightedScore two_scores =
     (if counted_entries two_scores = [] then 5 / 10
      else weighted_mean (counted_entries two_scores))"
    by (rule conjunct1)
  then have a: "calculateWeightedScore two_scores = 13 / 20"
    by (simp add: two_scores_entries weighted_mean_def)
  from inst have "calculateBehaviorScore two_analyses =
     (if counted_analyses two_analyses = [] then 5 / 10
      else weighted_mean (counted_analyses two_analyses))"
    by blast
  then have b: "calculateBehaviorScore two_analyses = 17 / 22"
    by (simp add: two_analyses_entries weighted_mean_def)
  from inst rejected
  have c: "counted_value (breakdown_of all_fetches_fail) fraudScore = Some (fallback_score fraudScore)"
    and d: "counted_value (breakdown_of all_fetches_fail) socialVerification
             = Some (fallback_score socialVerification)"
    by blast+
  have e: "calculateWeightedScore (breakdown_of all_fetches_fail) = 5 / 10"
    by (simp add: breakdown_of_def all_fetches_fail_overall)
  from a b c d e rejected show ?thesis
    by (simp add: two_scores_entries two_analyses_entries)
qed

subsection \<open>The scheduler\<close>

text \<open>
  Claim C9, as stated, fails: a second tick that fires while the first run still has a
  seller to process starts a second run, and two runs are in flight.
\<close>

theorem overlapping_runs_counterexample:
  "\<not> length (in_flight (run_scheduler [Tick [1, 2], Advance 0, Tick [2, 3]])) \<le> 1"
  by (simp add: run_scheduler_def scheduler_start_def)

text \<open>
  Claim C9, amended.  Every tick starts a run of the scoring queue, whatever is still
  in flight: the tick is never skipped, and the runs already in flight are untouched.
\<close>

theorem tick_always_starts_a_run:
  "in_flight (scheduler_step s (Tick sellers)) = in_flight s @ [sellers]
   \<and> length (in_flight (scheduler_step s (Tick sellers))) = length (in_flight s) + 1
   \<and> scored (scheduler_step s (Tick sellers)) = scored s"
  by simp

end
